theory Spec2Isabelle
  imports Main
begin

section \<open>Python values and failures\<close>

text \<open>
  Python integers are unbounded, so coordinates, lengths and identifiers are \<open>int\<close>.
  An exception raised by the source is a value \<open>Inl e\<close> of a sum type.
\<close>

datatype py_error = IndexError | TypeError | KeyError

text \<open>
  \<^verbatim>\<open>xs[i]\<close> on a Python list: indices \<open>0 .. len-1\<close> count from the front,
  indices \<open>-len .. -1\<close> count from the back, anything else raises IndexError.
\<close>

definition index_list :: "'a list \<Rightarrow> int \<Rightarrow> py_error + 'a" where
  "index_list xs i =
     (if 0 \<le> i \<and> i < int (length xs) then Inr (xs ! nat i)
      else if i < 0 \<and> - int (length xs) \<le> i then Inr (xs ! nat (int (length xs) + i))
      else Inl IndexError)"

text \<open>\<^verbatim>\<open>g[x][y]\<close> on a list of lists: the row is read first, then the cell.\<close>

definition index_grid :: "'a list list \<Rightarrow> int \<Rightarrow> int \<Rightarrow> py_error + 'a" where
  "index_grid g x y =
     (case index_list g x of
        Inl e \<Rightarrow> Inl e
      | Inr row \<Rightarrow> index_list row y)"

section \<open>Ships\<close>

text \<open>
  Modelled from the spec: the enumerations \<open>Direction\<close> and \<open>Orientation\<close> of
  \<^verbatim>\<open>common/constants.py\<close>, which is not among the source files. The spec names the
  directions up, down, left and right and the orientations horizontal and vertical.
\<close>

datatype Direction = Up | Down | Left | Right

datatype Orientation = Horizontal | Vertical

text \<open>
  Modelled from the spec: the base class \<open>Ship\<close> of
  \<^verbatim>\<open>common/battlefield/battleship/Ship.py\<close>, which is not among the source files.
  \<open>Battleship.__init__\<close> shows the constructor arguments (identifier, type tag, origin,
  extent in each axis) and \<open>Battlefield.move\<close> reads \<open>_ship_id\<close>; the spec adds the
  orientation and the per-cell damage state. \<open>damage\<close> is the set of the ship's cells
  that are marked hit, each cell given by its offset from the origin \<open>(x_pos, y_pos)\<close>.
\<close>

record Ship =
  ship_id :: int
  ship_type :: string
  x_pos :: int
  y_pos :: int
  x_length :: int
  y_length :: int
  orientation :: Orientation
  damage :: "(int \<times> int) set"

text \<open>
  \<^verbatim>\<open>
  class Battleship(Ship):
      def __init__(self, ship_id, x_pos, y_pos):
          self._ship_type = "Battleship"
          self._x_length = 5
          self._y_length = 1
          Ship.__init__(self, ship_id, self._ship_type, x_pos, y_pos,
                        self._x_length, self._y_length)
  \<close>
  A new ship lies horizontally (the 5 x 1 footprint extends along x) and is undamaged.
\<close>

definition Battleship_init :: "int \<Rightarrow> int \<Rightarrow> int \<Rightarrow> Ship" where
  "Battleship_init sid x y =
     \<lparr>ship_id = sid, ship_type = ''Battleship'', x_pos = x, y_pos = y,
      x_length = 5, y_length = 1, orientation = Horizontal, damage = {}\<rparr>"

text \<open>
  Modelled from the spec: \<open>Ship.occupiedCells\<close> (Ship.py is missing). "A ship's
  occupied cells are fully determined by origin + orientation + type-specific extents":
  a horizontal ship extends \<open>x_length\<close> cells along x and \<open>y_length\<close> along y from its
  origin, a vertical ship has the two extents exchanged.
\<close>

definition extent :: "Ship \<Rightarrow> int \<times> int" where
  "extent s =
     (case orientation s of
        Horizontal \<Rightarrow> (x_length s, y_length s)
      | Vertical \<Rightarrow> (y_length s, x_length s))"

definition occupiedCells :: "Ship \<Rightarrow> (int \<times> int) list" where
  "occupiedCells s =
     List.product [x_pos s .. x_pos s + fst (extent s) - 1]
                  [y_pos s .. y_pos s + snd (extent s) - 1]"

text \<open>
  Modelled from the spec: \<open>Ship.move\<close> (Ship.py is missing). "Attempts to translate
  the ship one cell in the given direction; returns true and commits the move if the new
  position keeps all occupied cells within the battlefield bounds, false (no mutation)
  otherwise." The spec's scenario fixes \<open>right\<close> as \<open>x + 1\<close>; \<open>up\<close> is taken as
  \<open>y - 1\<close>. Neither the arguments of \<open>Ship.__init__\<close> nor the attributes of
  \<open>Battlefield\<close> hold the side length of the battlefield, so the bound is a parameter.
\<close>

fun shift :: "Direction \<Rightarrow> int \<times> int" where
  "shift Up = (0, -1)"
| "shift Down = (0, 1)"
| "shift Left = (-1, 0)"
| "shift Right = (1, 0)"

definition translated :: "Ship \<Rightarrow> Direction \<Rightarrow> Ship" where
  "translated s d = s\<lparr>x_pos := x_pos s + fst (shift d), y_pos := y_pos s + snd (shift d)\<rparr>"

definition within_bounds :: "int \<Rightarrow> int \<times> int \<Rightarrow> bool" where
  "within_bounds bound c = (0 \<le> fst c \<and> fst c < bound \<and> 0 \<le> snd c \<and> snd c < bound)"

definition Ship_move :: "int \<Rightarrow> Ship \<Rightarrow> Direction \<Rightarrow> bool \<times> Ship" where
  "Ship_move bound s d =
     (if list_all (within_bounds bound) (occupiedCells (translated s d))
      then (True, translated s d)
      else (False, s))"

text \<open>
  Modelled from the spec: \<open>Ship.strikeAtPosition\<close> (Ship.py is missing). "Returns true
  and records a hit if (x, y) is one of the ship's currently-occupied cells, false
  otherwise"; a repeated strike on a cell reports true again and leaves the recorded
  damage as it is.
\<close>

definition strikeAtPosition :: "Ship \<Rightarrow> int \<Rightarrow> int \<Rightarrow> bool \<times> Ship" where
  "strikeAtPosition s x y =
     (if (x, y) \<in> set (occupiedCells s)
      then (True, s\<lparr>damage := insert (x - x_pos s, y - y_pos s) (damage s)\<rparr>)
      else (False, s))"

text \<open>
  Modelled from the spec: the placement invariant of the data model, "occupied cells
  must not overlap another ship's occupied cells". \<open>Battlefield.__init__\<close> takes the
  list of ships as it is and does not check it; the invariant is a hypothesis where a
  property of \<open>strike\<close> needs it.
\<close>

fun no_overlap :: "Ship list \<Rightarrow> bool" where
  "no_overlap [] = True"
| "no_overlap (s # rest) =
     (list_all (\<lambda>r. list_all (\<lambda>c. c \<notin> set (occupiedCells r)) (occupiedCells s)) rest \<and>
      no_overlap rest)"

section \<open>Battlefield\<close>

record Battlefield =
  ships :: "Ship list"
  my_battlefield :: "int list list"
  enemy_battlefield :: "int list list"

text \<open>
  \<^verbatim>\<open>
  def __init__(self, length, ships):
      self._ships = ships
      self._my_battlefield = [[length], [length]]
      self._enemy_battlefield = [[length], [length]]
  \<close>
  Each grid is a list of two rows, each row a list holding the one value \<open>length\<close>.
  The lines printed to standard output are not part of the state.
\<close>

definition Battlefield_init :: "int \<Rightarrow> Ship list \<Rightarrow> Battlefield" where
  "Battlefield_init len ss =
     \<lparr>ships = ss, my_battlefield = [[len], [len]], enemy_battlefield = [[len], [len]]\<rparr>"

text \<open>
  \<^verbatim>\<open>
  def move(self, ship_id, direction):
      for ship in self._ships:
          if (ship._ship_id == ship_id):
              if (ship.move(direction)):
                  return True
              else:
                  return False
  \<close>
  The loop returns at the first ship with the identifier. When no ship has it the
  function falls off its end, and the call returns Python's \<open>None\<close>: the result is a
  \<open>bool option\<close>, with \<open>None\<close> for \<open>None\<close>.
\<close>

fun move_ships :: "int \<Rightarrow> Ship list \<Rightarrow> int \<Rightarrow> Direction \<Rightarrow> bool option \<times> Ship list" where
  "move_ships bound [] sid d = (None, [])"
| "move_ships bound (s # rest) sid d =
     (if ship_id s = sid then
        (case Ship_move bound s d of
           (ok, s') \<Rightarrow> if ok then (Some True, s' # rest) else (Some False, s' # rest))
      else
        (case move_ships bound rest sid d of
           (r, rest') \<Rightarrow> (r, s # rest')))"

definition move :: "int \<Rightarrow> Battlefield \<Rightarrow> int \<Rightarrow> Direction \<Rightarrow> bool option \<times> Battlefield" where
  "move bound b sid d =
     (case move_ships bound (ships b) sid d of
        (r, ss) \<Rightarrow> (r, b\<lparr>ships := ss\<rparr>))"

text \<open>
  \<^verbatim>\<open>
  def strike(self, x_pos, y_pos):
      for ship in self._ships:
          if (ship.strikeAtPosition(x_pos, y_pos)):
              return True
      return False
  \<close>
\<close>

fun strike_ships :: "Ship list \<Rightarrow> int \<Rightarrow> int \<Rightarrow> bool \<times> Ship list" where
  "strike_ships [] x y = (False, [])"
| "strike_ships (s # rest) x y =
     (case strikeAtPosition s x y of
        (hit, s') \<Rightarrow>
          if hit then (True, s' # rest)
          else
            (case strike_ships rest x y of
               (r, rest') \<Rightarrow> (r, s' # rest')))"

definition strike :: "Battlefield \<Rightarrow> int \<Rightarrow> int \<Rightarrow> bool \<times> Battlefield" where
  "strike b x y =
     (case strike_ships (ships b) x y of
        (r, ss) \<Rightarrow> (r, b\<lparr>ships := ss\<rparr>))"

text \<open>
  \<^verbatim>\<open>
  def shoot(self, x_pos, y_pos):
      if ((x_pos * y_pos) >= len(self._enemy_battlefield)):
          if (self._enemy_battlefield[x_pos][y_pos] == 0):
              return True
          elif (self._enemy_battlefield[x_pos][y_pos] == 1):
              return True
          elif (self._enemy_battlefield[x_pos][y_pos] == 2):
              return True
          else:
              return False
      return False
  \<close>
  The cell is read in the first comparison; when that read raises, the call raises.
  Nothing is written, so the battlefield is not returned.
\<close>

definition shoot :: "Battlefield \<Rightarrow> int \<Rightarrow> int \<Rightarrow> py_error + bool" where
  "shoot b x y =
     (if x * y \<ge> int (length (enemy_battlefield b)) then
        (case index_grid (enemy_battlefield b) x y of
           Inl e \<Rightarrow> Inl e
         | Inr v \<Rightarrow>
             if v = 0 then Inr True
             else if v = 1 then Inr True
             else if v = 2 then Inr True
             else Inr False)
      else Inr False)"

text \<open>
  The grid invariant of the data model, as the comments of \<open>Battlefield\<close> state it
  (\<^verbatim>\<open>length = battlefield length <length> x <length>\<close>,
  \<^verbatim>\<open>0=hidden, 1=hit, 2=miss\<close>): a grid has \<open>len\<close> rows of \<open>len\<close> cells, and every cell of
  the enemy grid is one of the three states.
\<close>

definition square_grid :: "int \<Rightarrow> int list list \<Rightarrow> bool" where
  "square_grid len g =
     (int (length g) = len \<and> list_all (\<lambda>row. int (length row) = len) g)"

definition three_states :: "int list list \<Rightarrow> bool" where
  "three_states g = list_all (list_all (\<lambda>v. v = 0 \<or> v = 1 \<or> v = 2)) g"

definition Battlefield_invariant :: "int \<Rightarrow> Battlefield \<Rightarrow> bool" where
  "Battlefield_invariant len b =
     (square_grid len (my_battlefield b) \<and> square_grid len (enemy_battlefield b) \<and>
      three_states (enemy_battlefield b))"

section \<open>Network sessions\<close>

text \<open>
  Objects of the asyncio runtime are named by handles: a stream reader or writer and a
  task are natural numbers. A callable handed in by the higher layer is named by a number
  too; \<^verbatim>\<open>inspect.iscoroutinefunction\<close> tells the callables declared with
  \<^verbatim>\<open>async def\<close> from the others. The receive loop \<open>parse_from_stream\<close> and the
  messages are in \<^verbatim>\<open>common/protocol.py\<close>, which is not among the source files: of
  a receive task, its creation, the callbacks added to it and its end are modelled, the
  messages it delivers are not.
\<close>

type_synonym stream = nat

type_synonym task = nat

datatype callable = CoroutineFunction nat | PlainFunction nat

fun iscoroutinefunction :: "callable \<Rightarrow> bool" where
  "iscoroutinefunction (CoroutineFunction n) = True"
| "iscoroutinefunction (PlainFunction n) = False"

text \<open>
  \<^verbatim>\<open>
  class BattleshipServerClient:
      next_client_id = 1
      def __init__(self, reader, writer):
          self.reader = reader
          self.writer = writer
          self.id = BattleshipServerClient.next_client_id
          BattleshipServerClient.next_client_id += 1
  \<close>
\<close>

record BattleshipServerClient =
  client_reader :: stream
  client_writer :: stream
  client_id :: int

text \<open>
  A callback that asyncio runs when a task is done: \<open>internal_client_done\<close>, the closure
  of \<open>_accept_client\<close> that holds the external disconnect callback, or the bound method
  \<open>_server_closed_connection\<close> of a client, which calls that client's
  \<open>closed_callback\<close>.
\<close>

datatype done_callback = internal_client_done callable | server_closed_connection callable

text \<open>
  The state that the network code reads and writes: the class attribute
  \<open>next_client_id\<close>, the dictionary \<open>self.clients\<close> of the server, and of the
  asyncio runtime the number of tasks created so far (a new task gets the next handle)
  and the done callbacks added to each task. Two logs record the calls of external
  callbacks, oldest first: \<open>connected\<close> holds the argument of every call of
  \<open>client_connected_callback\<close>, \<open>disconnected\<close> the disconnect callback of every
  disconnect notification. The external callbacks are taken to return without raising
  and without writing this state.
\<close>

record world =
  next_client_id :: int
  clients :: "task \<rightharpoonup> BattleshipServerClient"
  tasks_created :: nat
  done_callbacks :: "task \<Rightarrow> done_callback list"
  connected :: "BattleshipServerClient list"
  disconnected :: "callable list"

text \<open>The state of a process that has accepted and opened no connection yet.\<close>

definition initial_world :: world where
  "initial_world =
     \<lparr>next_client_id = 1, clients = Map.empty, tasks_created = 0,
      done_callbacks = (\<lambda>t. []), connected = [], disconnected = []\<rparr>"

definition BattleshipServerClient_init :: "world \<Rightarrow> stream \<Rightarrow> stream \<Rightarrow> BattleshipServerClient \<times> world" where
  "BattleshipServerClient_init w r wr =
     (\<lparr>client_reader = r, client_writer = wr, client_id = next_client_id w\<rparr>,
      w\<lparr>next_client_id := next_client_id w + 1\<rparr>)"

text \<open>\<^verbatim>\<open>asyncio.Task(coro)\<close>: a new task object, scheduled to run.\<close>

definition new_task :: "world \<Rightarrow> task \<times> world" where
  "new_task w = (tasks_created w, w\<lparr>tasks_created := Suc (tasks_created w)\<rparr>)"

definition add_done_callback :: "world \<Rightarrow> task \<Rightarrow> done_callback \<Rightarrow> world" where
  "add_done_callback w t cb = w\<lparr>done_callbacks := (done_callbacks w)(t := done_callbacks w t @ [cb])\<rparr>"

text \<open>
  \<^verbatim>\<open>
  def _accept_client(self, client_reader, client_writer):
      async def internal_msg_callback(msg: ProtocolMessage):
          await external_msg_callback(msg)
      def internal_client_done(task):
          external_disconnected_callback()
          del self.clients[task]
      task = asyncio.Task(parse_from_stream(client_reader, client_writer, internal_msg_callback))
      client_obj = BattleshipServerClient(client_reader, client_writer)
      self.clients[task] = client_obj
      external_msg_callback, external_disconnected_callback = self.client_connected_callback(client_obj)
      if not inspect.iscoroutinefunction(external_msg_callback):
          raise TypeError("msg_callback must be a coroutine")
      task.add_done_callback(internal_client_done)
  \<close>
  \<open>client_connected_callback\<close> is the attribute of the server: a function from the
  client object to the pair of callbacks. The state is returned with the result, since
  what was written before a raise stays written.
\<close>

definition accept_client ::
  "(BattleshipServerClient \<Rightarrow> callable \<times> callable) \<Rightarrow> world \<Rightarrow> stream \<Rightarrow> stream
     \<Rightarrow> (py_error + unit) \<times> world" where
  "accept_client client_connected_callback w r wr =
     (case new_task w of (task, w1) \<Rightarrow>
      case BattleshipServerClient_init w1 r wr of (client_obj, w2) \<Rightarrow>
      let w3 = w2\<lparr>clients := (clients w2)(task \<mapsto> client_obj)\<rparr>;
          w4 = w3\<lparr>connected := connected w3 @ [client_obj]\<rparr>
      in case client_connected_callback client_obj of
           (external_msg_callback, external_disconnected_callback) \<Rightarrow>
             if \<not> iscoroutinefunction external_msg_callback then (Inl TypeError, w4)
             else (Inr (), add_done_callback w4 task
                             (internal_client_done external_disconnected_callback)))"

text \<open>
  Running one done callback of task \<open>t\<close>. \<open>internal_client_done\<close> calls the external
  disconnect callback and then deletes the entry of the task from \<open>self.clients\<close>
  (where the entry is absent, \<^verbatim>\<open>del\<close> raises KeyError into the event loop and the
  dictionary stays as it is: the same state). \<open>_server_closed_connection\<close> calls the
  client's \<open>closed_callback\<close>.
\<close>

fun run_done_callback :: "task \<Rightarrow> done_callback \<Rightarrow> world \<Rightarrow> world" where
  "run_done_callback t (internal_client_done external_disconnected_callback) w =
     (let w1 = w\<lparr>disconnected := disconnected w @ [external_disconnected_callback]\<rparr>
      in w1\<lparr>clients := (clients w1)(t := None)\<rparr>)"
| "run_done_callback t (server_closed_connection closed_callback) w =
     w\<lparr>disconnected := disconnected w @ [closed_callback]\<rparr>"

text \<open>
  What asyncio does when task \<open>t\<close> is done, whatever ended it (the peer closed the
  stream, the local side closed it, or the parser raised): it takes the callbacks added
  to the task, empties the task's list and calls each of them once, in the order added.
\<close>

definition task_done :: "world \<Rightarrow> task \<Rightarrow> world" where
  "task_done w t =
     fold (run_done_callback t) (done_callbacks w t)
       (w\<lparr>done_callbacks := (done_callbacks w)(t := [])\<rparr>)"

text \<open>
  \<^verbatim>\<open>
  class BattleshipClient:
      def __init__(self, server, port, loop, msg_callback, closed_callback):
          if not inspect.iscoroutinefunction(msg_callback):
              raise TypeError("msg_callback must be a coroutine")
          self.msg_callback = msg_callback
          self.closed_callback = closed_callback
          self.server = server
          self.port = port
          self.loop = loop
          self.reader = None
          self.writer = None
          self.receiving_task = None
  \<close>
  The event loop is the \<open>world\<close> that the operations are run in.
\<close>

record BattleshipClient =
  msg_callback :: callable
  closed_callback :: callable
  server :: string
  port :: int
  reader :: "stream option"
  writer :: "stream option"
  receiving_task :: "task option"

definition BattleshipClient_init ::
  "string \<Rightarrow> int \<Rightarrow> callable \<Rightarrow> callable \<Rightarrow> py_error + BattleshipClient" where
  "BattleshipClient_init srv prt msg_cb closed_cb =
     (if \<not> iscoroutinefunction msg_cb then Inl TypeError
      else Inr \<lparr>msg_callback = msg_cb, closed_callback = closed_cb, server = srv, port = prt,
                reader = None, writer = None, receiving_task = None\<rparr>)"

text \<open>
  \<^verbatim>\<open>
  async def connect(self):
      self.reader, self.writer = await asyncio.streams.open_connection(
          self.server, self.port, loop=self.loop)
      self.receiving_task = asyncio.Task(parse_from_stream(self.reader, self.writer, self.msg_callback))
      self.receiving_task.add_done_callback(self._server_closed_connection)
  \<close>
  The two streams that \<open>open_connection\<close> returns are arguments.
\<close>

definition connect :: "BattleshipClient \<Rightarrow> world \<Rightarrow> stream \<Rightarrow> stream \<Rightarrow> BattleshipClient \<times> world" where
  "connect c w r wr =
     (case new_task w of (task, w1) \<Rightarrow>
        (c\<lparr>reader := Some r, writer := Some wr, receiving_task := Some task\<rparr>,
         add_done_callback w1 task (server_closed_connection (closed_callback c))))"

text \<open>
  The server side as a transition system: a connection is accepted (with its two
  streams), or a task is done.
\<close>

datatype event = Accept stream stream | TaskDone task

fun step :: "(BattleshipServerClient \<Rightarrow> callable \<times> callable) \<Rightarrow> world \<Rightarrow> event \<Rightarrow> world" where
  "step cb w (Accept r wr) = snd (accept_client cb w r wr)"
| "step cb w (TaskDone t) = task_done w t"

definition run :: "(BattleshipServerClient \<Rightarrow> callable \<times> callable) \<Rightarrow> world \<Rightarrow> event list \<Rightarrow> world" where
  "run cb w evs = foldl (step cb) w evs"

text \<open>
  What holds of the registry in every state the server reaches: each accepted connection
  made one task and one entry of the log \<open>connected\<close>, the entry of task \<open>t\<close> in
  \<open>self.clients\<close> is the \<open>t\<close>-th client of the log, the identifiers in the log
  increase strictly, and all of them lie below the counter.
\<close>

definition registry_invariant :: "world \<Rightarrow> bool" where
  "registry_invariant w =
     (length (connected w) = tasks_created w \<and>
      (\<forall>t c. clients w t = Some c \<longrightarrow> t < tasks_created w \<and> connected w ! t = c) \<and>
      sorted_wrt (<) (map client_id (connected w)) \<and>
      (\<forall>c \<in> set (connected w). client_id c < next_client_id w))"

section \<open>The grids of a new battlefield\<close>

lemma index_list_two:
  "index_list [a, b] i =
     (if i = 0 \<or> i = -2 then Inr a else if i = 1 \<or> i = -1 then Inr b else Inl IndexError)"
  unfolding index_list_def
  by (cases "i = 0"; cases "i = 1"; cases "i = -1"; cases "i = -2"; simp)

lemma index_list_one:
  "index_list [a] i = (if i = 0 \<or> i = -1 then Inr a else Inl IndexError)"
  unfolding index_list_def
  by (cases "i = 0"; cases "i = -1"; simp)

lemma index_grid_fresh_cases:
  "index_grid [[len], [len]] x y =
     (if (x = 0 \<or> x = 1 \<or> x = -1 \<or> x = -2) \<and> (y = 0 \<or> y = -1) then Inr len
      else Inl IndexError)"
  by (simp add: index_grid_def index_list_two index_list_one)

lemma fresh_grid_never_square: "\<not> square_grid len [[len], [len]]"
  by (auto simp: square_grid_def)

text \<open>
  C5. A battlefield built with side length 10 has two grids of two rows with one cell
  each, every cell holding the number 10: the grids are not 10 by 10, the cells of the
  enemy grid hold none of the three states, and the invariant of the data model does not
  hold after construction.
\<close>

theorem Battlefield_init_grids_not_square:
  "my_battlefield (Battlefield_init 10 ss) = [[10], [10]] \<and>
   enemy_battlefield (Battlefield_init 10 ss) = [[10], [10]] \<and>
   \<not> square_grid 10 (my_battlefield (Battlefield_init 10 ss)) \<and>
   \<not> square_grid 10 (enemy_battlefield (Battlefield_init 10 ss)) \<and>
   \<not> three_states (enemy_battlefield (Battlefield_init 10 ss)) \<and>
   \<not> Battlefield_invariant 10 (Battlefield_init 10 ss)"
  by (simp add: Battlefield_init_def Battlefield_invariant_def square_grid_def
      three_states_def)

section \<open>Shooting at the enemy grid\<close>

lemma shoot_below_guard:
  "length (enemy_battlefield b) = 2 \<Longrightarrow> x * y < 2 \<Longrightarrow> shoot b x y = Inr False"
  by (simp add: shoot_def)

lemma shoot_fresh_equation:
  "shoot (Battlefield_init len ss) x y =
     (if x * y < 2 then Inr False
      else if x = -2 \<and> y = -1 then Inr (len = 0 \<or> len = 1 \<or> len = 2)
      else Inl IndexError)"
proof (cases "x * y < 2")
  case True
  then show ?thesis by (simp add: shoot_def Battlefield_init_def)
next
  case False
  show ?thesis
  proof (cases "(x = 0 \<or> x = 1 \<or> x = -1 \<or> x = -2) \<and> (y = 0 \<or> y = -1)")
    case valid: True
    with False have "x = -2 \<and> y = -1" by auto
    then show ?thesis
      by (simp add: shoot_def Battlefield_init_def index_grid_fresh_cases)
  next
    case invalid: False
    then have "\<not> (x = -2 \<and> y = -1)" by auto
    with False invalid show ?thesis
      by (simp add: shoot_def Battlefield_init_def index_grid_fresh_cases)
  qed
qed

text \<open>
  C7, as the code has it. On a new battlefield, for a coordinate with \<open>x * y < 2\<close>
  \<open>shoot\<close> returns false whatever the two rows of the enemy grid hold (no cell is read).
  For a coordinate with \<open>2 \<le> x * y\<close> it indexes the enemy grid, whose valid indices are
  \<open>x\<close> in \<open>{-2, -1, 0, 1}\<close> with \<open>y\<close> in \<open>{-1, 0}\<close>: the read raises IndexError except at
  \<open>(-2, -1)\<close>, where the cell holds \<open>length\<close> and \<open>shoot\<close> returns true exactly when
  \<open>length\<close> is 0, 1 or 2. So \<open>shoot\<close> never returns true for a coordinate with
  \<open>0 \<le> x\<close> and \<open>0 \<le> y\<close>.
\<close>

theorem shoot_fresh_battlefield:
  "(x * y < 2 \<longrightarrow>
      shoot ((Battlefield_init len ss)\<lparr>enemy_battlefield := [row0, row1]\<rparr>) x y = Inr False) \<and>
   (2 \<le> x * y \<longrightarrow>
      shoot (Battlefield_init len ss) x y =
        (if x = -2 \<and> y = -1 then Inr (len = 0 \<or> len = 1 \<or> len = 2) else Inl IndexError)) \<and>
   (0 \<le> x \<and> 0 \<le> y \<longrightarrow> shoot (Battlefield_init len ss) x y \<noteq> Inr True)"
proof (intro conjI impI)
  assume "x * y < 2"
  then show "shoot ((Battlefield_init len ss)\<lparr>enemy_battlefield := [row0, row1]\<rparr>) x y = Inr False"
    by (simp add: shoot_below_guard)
next
  assume "2 \<le> x * y"
  then show "shoot (Battlefield_init len ss) x y =
        (if x = -2 \<and> y = -1 then Inr (len = 0 \<or> len = 1 \<or> len = 2) else Inl IndexError)"
    by (simp add: shoot_fresh_equation)
next
  assume "0 \<le> x \<and> 0 \<le> y"
  then show "shoot (Battlefield_init len ss) x y \<noteq> Inr True"
    by (simp add: shoot_fresh_equation)
qed

text \<open>
  The three parts at work on battlefields of side 10 and 1.
\<close>

theorem shoot_fresh_battlefield_witness:
  "shoot (Battlefield_init 10 []) 0 0 = Inr False \<and>
   shoot (Battlefield_init 10 []) 3 3 = Inl IndexError \<and>
   shoot (Battlefield_init 10 []) 3 3 \<noteq> Inr True \<and>
   shoot (Battlefield_init 1 []) (-2) (-1) = Inr True"
  using shoot_fresh_battlefield [where x = 0 and y = 0 and len = 10 and ss = "[]"
        and ?row0.0 = "[10]" and ?row1.0 = "[10]"]
    shoot_fresh_battlefield [where x = 3 and y = 3 and len = 10 and ss = "[]"]
    shoot_fresh_battlefield [where x = "-2" and y = "-1" and len = 1 and ss = "[]"]
  by (simp add: Battlefield_init_def)

text \<open>
  C7 as stated ("shoot never returns true for any coordinate") fails: on a new battlefield
  of side 2 the indices \<open>-2\<close> and \<open>-1\<close> are valid, their product is 2, and the cell read
  holds 2.
\<close>

theorem shoot_accepts_negative_coordinate:
  "shoot (Battlefield_init 2 []) (-2) (-1) = Inr True"
  by (simp add: shoot_def Battlefield_init_def index_grid_def index_list_def)

text \<open>
  C1. \<open>shoot\<close> is to return false exactly for the coordinates outside the grid and for
  those whose recorded state disallows the shot, and true otherwise. On a new 10 x 10
  battlefield it returns false for the cells \<open>(0, 0)\<close> and \<open>(9, 0)\<close> of the grid without
  looking at the grid, and raises IndexError for the cells \<open>(3, 3)\<close> and \<open>(9, 9)\<close>. On a
  new battlefield of side 2 the cell \<open>(0, 0)\<close> is recorded as 2, a state for which the
  branches of \<open>shoot\<close> return true, yet \<open>shoot\<close> returns false for it, while it
  returns true for \<open>(-2, -1)\<close>, which is outside every grid.
\<close>

theorem shoot_rejects_cells_of_the_grid:
  "shoot (Battlefield_init 10 []) 0 0 = Inr False \<and>
   shoot (Battlefield_init 10 []) 9 0 = Inr False \<and>
   shoot (Battlefield_init 10 []) 3 3 = Inl IndexError \<and>
   shoot (Battlefield_init 10 []) 9 9 = Inl IndexError \<and>
   index_grid (enemy_battlefield (Battlefield_init 2 [])) 0 0 = Inr 2 \<and>
   shoot (Battlefield_init 2 []) 0 0 = Inr False \<and>
   shoot (Battlefield_init 2 []) (-2) (-1) = Inr True"
  by (simp add: shoot_def Battlefield_init_def index_grid_def index_list_def)

section \<open>Moving a ship\<close>

lemma move_ships_no_match:
  "sid \<notin> ship_id ` set ss \<Longrightarrow> move_ships bound ss sid d = (None, ss)"
  by (induction ss) auto

text \<open>
  C6. When no owned ship has the identifier, \<open>Battlefield.move\<close> changes nothing, and
  what it returns is Python's \<open>None\<close>, not \<open>False\<close>: the loop ends without a
  \<^verbatim>\<open>return\<close>, where \<open>strike\<close> and \<open>shoot\<close> end with \<^verbatim>\<open>return False\<close>.
\<close>

theorem move_unknown_ship_returns_None:
  "sid \<notin> ship_id ` set (ships b) \<Longrightarrow> move bound b sid d = (None, b)"
  by (simp add: move_def move_ships_no_match)

text \<open>
  A battlefield without ships, and one whose only ship has another identifier.
\<close>

theorem move_unknown_ship_returns_None_witness:
  "move 10 (Battlefield_init 10 []) 1 Right = (None, Battlefield_init 10 []) \<and>
   move 10 (Battlefield_init 10 [Battleship_init 1 0 0]) 2 Right
     = (None, Battlefield_init 10 [Battleship_init 1 0 0]) \<and>
   fst (move 10 (Battlefield_init 10 [Battleship_init 1 0 0]) 2 Right) \<noteq> Some False"
  using move_unknown_ship_returns_None [where sid = 1 and b = "Battlefield_init 10 []"
        and bound = 10 and d = Right]
    move_unknown_ship_returns_None [where sid = 2
        and b = "Battlefield_init 10 [Battleship_init 1 0 0]" and bound = 10 and d = Right]
  by (simp add: Battlefield_init_def Battleship_init_def)

subsection \<open>The move of one ship\<close>

lemma occupiedCells_iff:
  "(x, y) \<in> set (occupiedCells s) \<longleftrightarrow>
     x_pos s \<le> x \<and> x < x_pos s + fst (extent s) \<and> y_pos s \<le> y \<and> y < y_pos s + snd (extent s)"
  by (auto simp: occupiedCells_def)

lemma extent_translated: "extent (translated s d) = extent s"
  by (simp add: extent_def translated_def split: Orientation.splits)

lemma occupiedCells_translated:
  "set (occupiedCells (translated s d)) =
     (\<lambda>c. (fst c + fst (shift d), snd c + snd (shift d))) ` set (occupiedCells s)"
proof (intro set_eqI iffI)
  fix c
  assume a: "c \<in> set (occupiedCells (translated s d))"
  obtain x y where c: "c = (x, y)" by (cases c)
  from a c have "(x - fst (shift d), y - snd (shift d)) \<in> set (occupiedCells s)"
    by (simp add: occupiedCells_iff extent_translated) (simp add: translated_def)
  then show "c \<in> (\<lambda>c. (fst c + fst (shift d), snd c + snd (shift d))) ` set (occupiedCells s)"
    using c by force
next
  fix c
  assume "c \<in> (\<lambda>c. (fst c + fst (shift d), snd c + snd (shift d))) ` set (occupiedCells s)"
  then obtain x y where xy: "(x, y) \<in> set (occupiedCells s)"
    and c: "c = (x + fst (shift d), y + snd (shift d))" by auto
  from xy show "c \<in> set (occupiedCells (translated s d))"
    unfolding c by (simp add: occupiedCells_iff extent_translated) (simp add: translated_def)
qed

lemma shift_one_cell: "\<bar>fst (shift d)\<bar> + \<bar>snd (shift d)\<bar> = 1"
  by (cases d) simp_all

text \<open>
  C3. For every ship and each of the four directions, \<open>Ship.move\<close> returns true if and
  only if all cells that the ship occupies after the translation lie within the bounds of
  the battlefield; it then commits the translated ship, and otherwise leaves the ship as
  it is and returns false. The translation moves the origin by exactly one cell, changes
  no other attribute, and moves every occupied cell by that one cell.
\<close>

theorem Ship_move_within_bounds:
  "(fst (Ship_move bound s d) \<longleftrightarrow>
      (\<forall>c \<in> set (occupiedCells (translated s d)). within_bounds bound c)) \<and>
   (fst (Ship_move bound s d) \<longrightarrow> snd (Ship_move bound s d) = translated s d) \<and>
   (\<not> fst (Ship_move bound s d) \<longrightarrow> snd (Ship_move bound s d) = s) \<and>
   \<bar>x_pos (translated s d) - x_pos s\<bar> + \<bar>y_pos (translated s d) - y_pos s\<bar> = 1 \<and>
   (translated s d)\<lparr>x_pos := x_pos s, y_pos := y_pos s\<rparr> = s \<and>
   set (occupiedCells (translated s d)) =
     (\<lambda>c. (fst c + fst (shift d), snd c + snd (shift d))) ` set (occupiedCells s)"
proof (intro conjI)
  show "fst (Ship_move bound s d) \<longleftrightarrow>
      (\<forall>c \<in> set (occupiedCells (translated s d)). within_bounds bound c)"
    by (simp add: Ship_move_def list_all_iff)
  show "fst (Ship_move bound s d) \<longrightarrow> snd (Ship_move bound s d) = translated s d"
    by (simp add: Ship_move_def)
  show "\<not> fst (Ship_move bound s d) \<longrightarrow> snd (Ship_move bound s d) = s"
    by (simp add: Ship_move_def)
  show "\<bar>x_pos (translated s d) - x_pos s\<bar> + \<bar>y_pos (translated s d) - y_pos s\<bar> = 1"
    using shift_one_cell [of d] by (simp add: translated_def)
  show "(translated s d)\<lparr>x_pos := x_pos s, y_pos := y_pos s\<rparr> = s"
    by (simp add: translated_def)
  show "set (occupiedCells (translated s d)) =
     (\<lambda>c. (fst c + fst (shift d), snd c + snd (shift d))) ` set (occupiedCells s)"
    by (rule occupiedCells_translated)
qed

text \<open>
  A battleship on a 10 x 10 battlefield: moves that stay inside, and moves that would leave
  it on the left and on the right.
\<close>

theorem Ship_move_within_bounds_witness:
  "Ship_move 10 (Battleship_init 1 0 0) Right = (True, Battleship_init 1 1 0) \<and>
   Ship_move 10 (Battleship_init 1 0 0) Left = (False, Battleship_init 1 0 0) \<and>
   Ship_move 10 (Battleship_init 1 5 0) Right = (False, Battleship_init 1 5 0) \<and>
   Ship_move 10 (Battleship_init 1 5 0) Down = (True, Battleship_init 1 5 1)"
  using Ship_move_within_bounds [where bound = 10 and s = "Battleship_init 1 0 0" and d = Right]
    Ship_move_within_bounds [where bound = 10 and s = "Battleship_init 1 0 0" and d = Left]
    Ship_move_within_bounds [where bound = 10 and s = "Battleship_init 1 5 0" and d = Right]
    Ship_move_within_bounds [where bound = 10 and s = "Battleship_init 1 5 0" and d = Down]
  by (simp add: Ship_move_def translated_def Battleship_init_def occupiedCells_def extent_def
      within_bounds_def upto_rec1)

subsection \<open>The move of a ship of the battlefield\<close>

text \<open>
  \<open>Battlefield.move\<close> hands the first ship with the identifier to \<open>Ship.move\<close> and
  returns its answer; the other ships stay as they are.
\<close>

lemma move_ships_first_match:
  "ship_id s = sid \<Longrightarrow> sid \<notin> ship_id ` set pre \<Longrightarrow>
   move_ships bound (pre @ s # post) sid d =
     (Some (fst (Ship_move bound s d)), pre @ snd (Ship_move bound s d) # post)"
  by (induction pre) (auto split: prod.splits)

lemma move_first_match:
  "ship_id s = sid \<Longrightarrow> sid \<notin> ship_id ` set pre \<Longrightarrow> ships b = pre @ s # post \<Longrightarrow>
   move bound b sid d =
     (Some (fst (Ship_move bound s d)), b\<lparr>ships := pre @ snd (Ship_move bound s d) # post\<rparr>)"
  by (simp add: move_def move_ships_first_match)

section \<open>Strikes\<close>

lemma strike_ships_miss:
  "\<forall>s \<in> set ss. (x, y) \<notin> set (occupiedCells s) \<Longrightarrow> strike_ships ss x y = (False, ss)"
  by (induction ss) (simp_all add: strikeAtPosition_def)

lemma strike_ships_first_hit:
  "\<forall>p \<in> set pre. (x, y) \<notin> set (occupiedCells p) \<Longrightarrow> (x, y) \<in> set (occupiedCells s) \<Longrightarrow>
   strike_ships (pre @ s # post) x y =
     (True, pre @ s\<lparr>damage := insert (x - x_pos s, y - y_pos s) (damage s)\<rparr> # post)"
  by (induction pre) (simp_all add: strikeAtPosition_def)

lemma strike_ships_result:
  "fst (strike_ships ss x y) \<longleftrightarrow> (\<exists>s \<in> set ss. (x, y) \<in> set (occupiedCells s))"
  by (induction ss) (auto simp: strikeAtPosition_def split: prod.splits)

lemma no_overlap_nth:
  "no_overlap ss \<Longrightarrow> i < length ss \<Longrightarrow> j < length ss \<Longrightarrow> i \<noteq> j \<Longrightarrow>
   c \<in> set (occupiedCells (ss ! i)) \<Longrightarrow> c \<notin> set (occupiedCells (ss ! j))"
proof (induction ss arbitrary: i j)
  case Nil
  then show ?case by simp
next
  case (Cons s rest)
  from Cons.prems(1) have head: "\<And>r c. r \<in> set rest \<Longrightarrow> c \<in> set (occupiedCells s) \<Longrightarrow>
      c \<notin> set (occupiedCells r)"
    and tail: "no_overlap rest"
    by (auto simp: list_all_iff)
  show ?case
  proof (cases i)
    case i0: 0
    with Cons.prems obtain j' where j: "j = Suc j'" "j' < length rest"
      by (cases j) auto
    with i0 Cons.prems(5) head [of "rest ! j'" c] show ?thesis by simp
  next
    case (Suc i')
    show ?thesis
    proof (cases j)
      case 0
      with Suc Cons.prems head [of "rest ! i'" c] show ?thesis by auto
    next
      case j: (Suc j')
      with Suc Cons.prems Cons.IH [OF tail, of i' j'] show ?thesis by simp
    qed
  qed
qed

text \<open>
  C2. For every battlefield and coordinate, \<open>strike\<close> returns true if and only if some
  owned ship occupies the cell. When no ship occupies it, \<open>strike\<close> returns false and
  the battlefield, with every ship's damage state, is unchanged. When the ships do not
  overlap and the ship \<open>s\<close> at any place \<open>i\<close> of the list occupies the cell, \<open>strike\<close>
  returns true and the battlefield changes in the damage state of \<open>s\<close> at that cell only.
\<close>

theorem strike_hits_the_occupying_ship:
  "(fst (strike b x y) \<longleftrightarrow> (\<exists>s \<in> set (ships b). (x, y) \<in> set (occupiedCells s))) \<and>
   ((\<forall>s \<in> set (ships b). (x, y) \<notin> set (occupiedCells s)) \<longrightarrow> strike b x y = (False, b)) \<and>
   (no_overlap (ships b) \<and> i < length (ships b) \<and> (x, y) \<in> set (occupiedCells (ships b ! i)) \<longrightarrow>
      strike b x y =
        (True, b\<lparr>ships := (ships b)
            [i := (ships b ! i)\<lparr>damage :=
               insert (x - x_pos (ships b ! i), y - y_pos (ships b ! i))
                 (damage (ships b ! i))\<rparr>]\<rparr>))"
proof (intro conjI impI)
  show "fst (strike b x y) \<longleftrightarrow> (\<exists>s \<in> set (ships b). (x, y) \<in> set (occupiedCells s))"
    using strike_ships_result [of "ships b" x y]
    by (cases "strike_ships (ships b) x y") (simp add: strike_def)
next
  assume "\<forall>s \<in> set (ships b). (x, y) \<notin> set (occupiedCells s)"
  then show "strike b x y = (False, b)"
    by (simp add: strike_def strike_ships_miss)
next
  let ?s = "ships b ! i"
  let ?s' = "?s\<lparr>damage := insert (x - x_pos ?s, y - y_pos ?s) (damage ?s)\<rparr>"
  assume a: "no_overlap (ships b) \<and> i < length (ships b) \<and> (x, y) \<in> set (occupiedCells ?s)"
  then have i: "i < length (ships b)" and occ: "(x, y) \<in> set (occupiedCells ?s)"
    and no: "no_overlap (ships b)" by simp_all
  have split: "ships b = take i (ships b) @ ?s # drop (Suc i) (ships b)"
    using i by (simp add: id_take_nth_drop)
  have before: "\<forall>p \<in> set (take i (ships b)). (x, y) \<notin> set (occupiedCells p)"
  proof
    fix p assume "p \<in> set (take i (ships b))"
    then obtain j where j: "j < i" "p = ships b ! j"
      using i by (auto simp: in_set_conv_nth)
    with no_overlap_nth [OF no i, of j "(x, y)"] i occ show "(x, y) \<notin> set (occupiedCells p)"
      by simp
  qed
  have "strike_ships (take i (ships b) @ ?s # drop (Suc i) (ships b)) x y =
      (True, take i (ships b) @ ?s' # drop (Suc i) (ships b))"
    using before occ by (rule strike_ships_first_hit)
  with split have "strike_ships (ships b) x y = (True, (ships b)[i := ?s'])"
    using i by (simp add: upd_conv_take_nth_drop)
  then show "strike b x y = (True, b\<lparr>ships := (ships b)[i := ?s']\<rparr>)"
    by (simp add: strike_def)
qed

text \<open>
  Two battleships in rows 0 and 1: a strike on the second one, and a strike on water.
\<close>

theorem strike_hits_the_occupying_ship_witness:
  "no_overlap [Battleship_init 1 0 0, Battleship_init 2 0 1] \<and>
   fst (strike (Battlefield_init 10 [Battleship_init 1 0 0, Battleship_init 2 0 1]) 2 1) \<and>
   strike (Battlefield_init 10 [Battleship_init 1 0 0, Battleship_init 2 0 1]) 9 9 =
     (False, Battlefield_init 10 [Battleship_init 1 0 0, Battleship_init 2 0 1]) \<and>
   strike (Battlefield_init 10 [Battleship_init 1 0 0, Battleship_init 2 0 1]) 2 1 =
     (True, Battlefield_init 10
        [Battleship_init 1 0 0, (Battleship_init 2 0 1)\<lparr>damage := {(2, 0)}\<rparr>])"
  using strike_hits_the_occupying_ship
      [where b = "Battlefield_init 10 [Battleship_init 1 0 0, Battleship_init 2 0 1]"
        and x = 2 and y = 1 and i = 1]
    strike_hits_the_occupying_ship
      [where b = "Battlefield_init 10 [Battleship_init 1 0 0, Battleship_init 2 0 1]"
        and x = 9 and y = 9]
  by (simp add: Battlefield_init_def Battleship_init_def occupiedCells_def extent_def
      list_all_iff)

text \<open>
  Outside the invariant, for ships that overlap, the loop stops at the first ship of the
  list that reports the hit: that ship is marked, the ships behind it are not.
\<close>

lemma strike_overlapping_ships_first_in_list:
  "strike (Battlefield_init 10 [Battleship_init 1 0 0, Battleship_init 2 0 0]) 0 0 =
     (True, Battlefield_init 10
        [(Battleship_init 1 0 0)\<lparr>damage := {(0, 0)}\<rparr>, Battleship_init 2 0 0])"
  by (simp add: strike_def strikeAtPosition_def Battlefield_init_def Battleship_init_def
      occupiedCells_def extent_def)

text \<open>
  The scenario of the spec: a 10 x 10 battlefield with one battleship at \<open>(0, 0)\<close>.
  A strike at \<open>(0, 0)\<close> hits and one at \<open>(9, 9)\<close> does not; after the ship has moved
  right, a strike at \<open>(0, 0)\<close> misses and one at \<open>(1, 0)\<close> hits.
\<close>

lemma scenario_strike_move_strike:
  "fst (strike (Battlefield_init 10 [Battleship_init 1 0 0]) 0 0) \<and>
   \<not> fst (strike (Battlefield_init 10 [Battleship_init 1 0 0]) 9 9) \<and>
   move 10 (Battlefield_init 10 [Battleship_init 1 0 0]) 1 Right =
     (Some True, Battlefield_init 10 [Battleship_init 1 1 0]) \<and>
   \<not> fst (strike (Battlefield_init 10 [Battleship_init 1 1 0]) 0 0) \<and>
   fst (strike (Battlefield_init 10 [Battleship_init 1 1 0]) 1 0)"
  by (simp add: strike_def strikeAtPosition_def move_def Ship_move_def translated_def
      within_bounds_def Battlefield_init_def Battleship_init_def occupiedCells_def extent_def
      upto_rec1)

section \<open>Client identifiers and disconnect notifications\<close>

lemmas network_defs =
  run_def accept_client_def new_task_def BattleshipServerClient_init_def add_done_callback_def
  task_done_def initial_world_def Let_def

lemma registry_invariant_initial: "registry_invariant initial_world"
  by (simp add: registry_invariant_def initial_world_def)

lemma accept_client_fields:
  "next_client_id (snd (accept_client cb w r wr)) = next_client_id w + 1"
  "tasks_created (snd (accept_client cb w r wr)) = Suc (tasks_created w)"
  "connected (snd (accept_client cb w r wr)) =
     connected w @ [\<lparr>client_reader = r, client_writer = wr, client_id = next_client_id w\<rparr>]"
  "clients (snd (accept_client cb w r wr)) =
     (clients w)(tasks_created w \<mapsto>
        \<lparr>client_reader = r, client_writer = wr, client_id = next_client_id w\<rparr>)"
  "disconnected (snd (accept_client cb w r wr)) = disconnected w"
  by (simp_all add: accept_client_def new_task_def BattleshipServerClient_init_def
      add_done_callback_def Let_def split: prod.splits)

lemma run_done_callback_fields:
  "next_client_id (run_done_callback t cb w) = next_client_id w"
  "tasks_created (run_done_callback t cb w) = tasks_created w"
  "connected (run_done_callback t cb w) = connected w"
  by (cases cb; simp add: Let_def)+

lemma fold_run_done_callback_fields:
  "next_client_id (fold (run_done_callback t) cbs w) = next_client_id w"
  "tasks_created (fold (run_done_callback t) cbs w) = tasks_created w"
  "connected (fold (run_done_callback t) cbs w) = connected w"
  by (induction cbs arbitrary: w; simp add: run_done_callback_fields)+

lemma fold_run_done_callback_clients:
  "clients (fold (run_done_callback t) cbs w) t' = Some c \<Longrightarrow> clients w t' = Some c"
proof (induction cbs arbitrary: w)
  case Nil
  then show ?case by simp
next
  case (Cons cb cbs)
  then have "clients (run_done_callback t cb w) t' = Some c" by simp
  then show ?case by (cases cb) (simp_all add: Let_def split: if_splits)
qed

lemma task_done_fields:
  "next_client_id (task_done w t) = next_client_id w"
  "tasks_created (task_done w t) = tasks_created w"
  "connected (task_done w t) = connected w"
  by (simp_all add: task_done_def fold_run_done_callback_fields)

lemma task_done_clients:
  "clients (task_done w t) t' = Some c \<Longrightarrow> clients w t' = Some c"
  unfolding task_done_def using fold_run_done_callback_clients [of t _ _ t' c] by fastforce

lemma registry_invariant_accept:
  assumes "registry_invariant w"
  shows "registry_invariant (snd (accept_client cb w r wr))"
proof -
  let ?c = "\<lparr>client_reader = r, client_writer = wr, client_id = next_client_id w\<rparr>"
  from assms have len: "length (connected w) = tasks_created w"
    and old: "\<And>t c. clients w t = Some c \<Longrightarrow> t < tasks_created w \<and> connected w ! t = c"
    and srt: "sorted_wrt (<) (map client_id (connected w))"
    and bnd: "\<And>c. c \<in> set (connected w) \<Longrightarrow> client_id c < next_client_id w"
    by (simp_all add: registry_invariant_def)
  have "length (connected w @ [?c]) = Suc (tasks_created w)"
    using len by simp
  moreover have "t < Suc (tasks_created w) \<and> (connected w @ [?c]) ! t = c"
    if "((clients w)(tasks_created w \<mapsto> ?c)) t = Some c" for t c
  proof (cases "t = tasks_created w")
    case True
    with that len show ?thesis by (simp add: nth_append)
  next
    case False
    with that have "clients w t = Some c" by simp
    from old [OF this] len show ?thesis by (simp add: nth_append)
  qed
  moreover have "sorted_wrt (<) (map client_id (connected w @ [?c]))"
    using srt bnd by (simp add: sorted_wrt_append)
  moreover have "client_id c < next_client_id w + 1" if "c \<in> set (connected w @ [?c])" for c
    using that bnd by (fastforce simp: less_imp_le)
  ultimately show ?thesis
    unfolding registry_invariant_def accept_client_fields by blast
qed

lemma registry_invariant_task_done:
  assumes "registry_invariant w"
  shows "registry_invariant (task_done w t)"
  using assms unfolding registry_invariant_def task_done_fields
  by (blast dest: task_done_clients)

lemma registry_invariant_step: "registry_invariant w \<Longrightarrow> registry_invariant (step cb w ev)"
  by (cases ev) (simp_all add: registry_invariant_accept registry_invariant_task_done)

lemma registry_invariant_foldl:
  "registry_invariant w \<Longrightarrow> registry_invariant (foldl (step cb) w evs)"
  by (induction evs arbitrary: w) (simp_all add: registry_invariant_step)

lemma registry_invariant_run: "registry_invariant (run cb initial_world evs)"
  by (simp add: run_def registry_invariant_foldl registry_invariant_initial)

lemma registry_invariant_distinct:
  assumes inv: "registry_invariant w"
    and c: "clients w t = Some c" and c': "clients w t' = Some c'" and ne: "t \<noteq> t'"
  shows "client_id c \<noteq> client_id c'"
proof -
  from inv c c' have t: "t < length (connected w)" "connected w ! t = c"
    and t': "t' < length (connected w)" "connected w ! t' = c'"
    by (auto simp: registry_invariant_def)
  from inv have "distinct (map client_id (connected w))"
    by (simp add: registry_invariant_def strict_sorted_iff)
  with t t' ne have "map client_id (connected w) ! t \<noteq> map client_id (connected w) ! t'"
    by (simp add: nth_eq_iff_index_eq del: nth_map)
  with t t' show ?thesis by simp
qed

text \<open>
  C8. In every state that the server reaches from the start of the process, by accepting
  connections and by tasks ending: the identifiers handed out, in the order of
  acceptance, increase strictly (so none is used twice, also after a disconnect); all lie
  below the counter; the clients in the registry are clients of that log and any two
  entries of the registry have different identifiers; and the next accepted connection
  gets the value of the counter, which is greater than every identifier handed out before.
  \<open>_accept_client\<close> has no \<^verbatim>\<open>await\<close>, so it runs as one step of the event loop.
\<close>

theorem client_ids_increase_and_stay_distinct:
  "(let w = run cb initial_world evs in
      sorted_wrt (<) (map client_id (connected w)) \<and>
      (\<forall>c \<in> set (connected w). client_id c < next_client_id w) \<and>
      (\<forall>t c. clients w t = Some c \<longrightarrow> c \<in> set (connected w)) \<and>
      (\<forall>t t' c c'. clients w t = Some c \<and> clients w t' = Some c' \<and> t \<noteq> t'
          \<longrightarrow> client_id c \<noteq> client_id c') \<and>
      connected (run cb initial_world (evs @ [Accept r wr])) =
        connected w @ [\<lparr>client_reader = r, client_writer = wr, client_id = next_client_id w\<rparr>])"
proof -
  define w where "w = run cb initial_world evs"
  have inv: "registry_invariant w"
    unfolding w_def by (rule registry_invariant_run)
  have 1: "sorted_wrt (<) (map client_id (connected w))"
    using inv by (simp add: registry_invariant_def)
  have 2: "\<forall>c \<in> set (connected w). client_id c < next_client_id w"
    using inv by (simp add: registry_invariant_def)
  have 3: "\<forall>t c. clients w t = Some c \<longrightarrow> c \<in> set (connected w)"
    using inv unfolding registry_invariant_def by (metis nth_mem)
  have 4: "\<forall>t t' c c'. clients w t = Some c \<and> clients w t' = Some c' \<and> t \<noteq> t'
          \<longrightarrow> client_id c \<noteq> client_id c'"
    using registry_invariant_distinct [OF inv] by blast
  have 5: "connected (run cb initial_world (evs @ [Accept r wr])) =
        connected w @ [\<lparr>client_reader = r, client_writer = wr, client_id = next_client_id w\<rparr>]"
    by (simp add: run_def w_def accept_client_fields)
  from 1 2 3 4 5 show ?thesis
    unfolding w_def Let_def by blast
qed


text \<open>
  Two connections are accepted, the first one ends, a third is accepted: the identifiers
  are 1, 2, 3 and the registry holds 2 and 3.
\<close>

theorem client_ids_increase_and_stay_distinct_witness:
  "map client_id (connected (run (\<lambda>c. (CoroutineFunction 0, PlainFunction 1)) initial_world
      [Accept 1 2, Accept 3 4, TaskDone 0, Accept 5 6])) = [1, 2, 3] \<and>
   map (map_option client_id \<circ> clients (run (\<lambda>c. (CoroutineFunction 0, PlainFunction 1)) initial_world
      [Accept 1 2, Accept 3 4, TaskDone 0, Accept 5 6])) [0, 1, 2] = [None, Some 2, Some 3] \<and>
   next_client_id (run (\<lambda>c. (CoroutineFunction 0, PlainFunction 1)) initial_world
      [Accept 1 2, Accept 3 4, TaskDone 0, Accept 5 6]) = 4"
  using client_ids_increase_and_stay_distinct
      [where cb = "\<lambda>c. (CoroutineFunction 0, PlainFunction 1)"
        and evs = "[Accept 1 2, Accept 3 4, TaskDone 0]" and r = 5 and wr = 6]
  by (simp add: network_defs)

text \<open>
  C9. A message callback that is no coroutine function is to be refused before any
  connection work begins. The constructor of \<open>BattleshipClient\<close> does so. In
  \<open>_accept_client\<close> the check comes after the task was created, the identifier was
  taken, the client was put into \<open>self.clients\<close> and the external callback was called:
  the call raises TypeError and leaves all of that behind.
\<close>

theorem accept_client_registers_before_TypeError:
  "accept_client (\<lambda>c. (PlainFunction 0, PlainFunction 1)) initial_world 7 8 =
     (Inl TypeError,
      \<lparr>next_client_id = 2,
       clients = [0 \<mapsto> \<lparr>client_reader = 7, client_writer = 8, client_id = 1\<rparr>],
       tasks_created = 1,
       done_callbacks = (\<lambda>t. []),
       connected = [\<lparr>client_reader = 7, client_writer = 8, client_id = 1\<rparr>],
       disconnected = []\<rparr>) \<and>
   BattleshipClient_init ''localhost'' 8080 (PlainFunction 0) (PlainFunction 1) = Inl TypeError"
  by (simp add: network_defs BattleshipClient_init_def)

text \<open>
  Where the message callback is a coroutine function, the end of the task calls the
  disconnect callback once and removes the entry; the callbacks of the task are used up,
  so nothing more happens for that task. The same holds on the client side.
\<close>

lemma accept_then_task_done_notifies_once:
  assumes "cb \<lparr>client_reader = r, client_writer = wr, client_id = 1\<rparr> = (CoroutineFunction m, d)"
  shows "disconnected (run cb initial_world [Accept r wr, TaskDone 0]) = [d]"
    and "clients (run cb initial_world [Accept r wr, TaskDone 0]) 0 = None"
    and "run cb initial_world [Accept r wr, TaskDone 0, TaskDone 0] =
         run cb initial_world [Accept r wr, TaskDone 0]"
  using assms by (simp_all add: network_defs)

lemma connect_then_task_done_notifies_once:
  "disconnected (task_done (snd (connect c initial_world r wr)) 0) = [closed_callback c]"
  "task_done (task_done (snd (connect c initial_world r wr)) 0) 0 =
     task_done (snd (connect c initial_world r wr)) 0"
  by (simp_all add: connect_def network_defs)

text \<open>
  C10. Every connection is to produce exactly one disconnect notification and to have
  its registry entry removed. For a connection whose accept raised TypeError no done
  callback was added to the task: when the task is done, the disconnect callback is not
  called and the entry of the task stays in \<open>self.clients\<close>.
\<close>

theorem task_done_after_TypeError_notifies_nobody:
  "disconnected (run (\<lambda>c. (PlainFunction 0, PlainFunction 1)) initial_world
      [Accept 7 8, TaskDone 0]) = [] \<and>
   clients (run (\<lambda>c. (PlainFunction 0, PlainFunction 1)) initial_world
      [Accept 7 8, TaskDone 0]) 0 = Some \<lparr>client_reader = 7, client_writer = 8, client_id = 1\<rparr> \<and>
   done_callbacks (snd (accept_client (\<lambda>c. (PlainFunction 0, PlainFunction 1)) initial_world 7 8)) 0
     = []"
  by (simp add: network_defs)

end
